theory Spec2Isabelle
  imports Complex_Main
begin

section \<open>The election display pipeline of \<open>ulanzi_election_display.py\<close>\<close>

text \<open>
  The script fetches a JSON document, turns it into a \<open>ProcessedElectionData\<close>
  (\<open>process_election_data\<close>), renders a bar chart (\<open>generate_bar_chart\<close>) and a text
  line (\<open>generate_text_message\<close>) and puts both into one packet
  (\<open>generate_ulanzi_packet\<close>). The four functions are pure; they are embedded here as
  HOL functions. A Python exception is a value \<open>Inl e\<close> of the result type
  \<open>error + 'a\<close>, the return value \<open>None\<close> of \<open>process_election_data\<close> is
  \<open>Inr None\<close>.
\<close>

subsection \<open>Python values and exceptions\<close>

text \<open>
  The exceptions the four functions can raise. \<open>ParserError\<close> and \<open>OverflowError\<close>
  are what \<open>dateutil.parser.parse\<close> raises on a string it cannot read.
  \<open>DeclaredTypeMismatch\<close> is not a Python exception: see \<open>PartyResult_init\<close>.
\<close>

datatype error =
    AttributeError
  | IndexError
  | KeyError
  | TypeError
  | ZeroDivisionError
  | ParserError
  | OverflowError
  | DeclaredTypeMismatch

text \<open>
  What \<open>response.json()\<close> returns: \<open>None\<close>, \<open>bool\<close>, \<open>int\<close> (unbounded),
  \<open>float\<close>, \<open>str\<close>, \<open>list\<close> and \<open>dict\<close> with string keys. A float is carried
  by its exact value, a rational number (every finite double is one); the non-standard
  literals \<open>NaN\<close> and \<open>Infinity\<close> are not modelled. A dict is the list of its items
  in insertion order, keys distinct; a lookup takes the first item with the key. A
  string is the list of its bytes; the functions compare strings, copy them and append
  a space, nothing else.
\<close>

datatype json =
    JNull
  | JBool bool
  | JInt int
  | JFloat rat
  | JStr string
  | JArr "json list"
  | JObj "(string \<times> json) list"

type_synonym 'a result = "error + 'a"

text \<open>Sequencing of two computations: an exception of the first ends both.\<close>

definition and_then :: "'a result \<Rightarrow> ('a \<Rightarrow> 'b result) \<Rightarrow> 'b result" where
  "and_then m f = (case m of Inl e \<Rightarrow> Inl e | Inr v \<Rightarrow> f v)"

text \<open>\<open>v.get(k, d)\<close>: only a dict has the method.\<close>

fun py_get :: "json \<Rightarrow> string \<Rightarrow> json \<Rightarrow> json result" where
  "py_get (JObj kvs) k d = Inr (case map_of kvs k of None \<Rightarrow> d | Some v \<Rightarrow> v)"
| "py_get _ k d = Inl AttributeError"

text \<open>
  \<open>v[0]\<close>: the first element of a list or the first character of a string
  (\<open>IndexError\<close> when empty); a dict from JSON has no key \<open>0\<close>; nothing else can be
  subscripted.
\<close>

fun py_index0 :: "json \<Rightarrow> json result" where
  "py_index0 (JArr []) = Inl IndexError"
| "py_index0 (JArr (x # xs)) = Inr x"
| "py_index0 (JStr []) = Inl IndexError"
| "py_index0 (JStr (c # cs)) = Inr (JStr [c])"
| "py_index0 (JObj kvs) = Inl KeyError"
| "py_index0 _ = Inl TypeError"

text \<open>Truth value of a value in \<open>if v:\<close>.\<close>

fun py_truthy :: "json \<Rightarrow> bool" where
  "py_truthy JNull = False"
| "py_truthy (JBool b) = b"
| "py_truthy (JInt i) = (i \<noteq> 0)"
| "py_truthy (JFloat x) = (x \<noteq> 0)"
| "py_truthy (JStr s) = (s \<noteq> [])"
| "py_truthy (JArr xs) = (xs \<noteq> [])"
| "py_truthy (JObj kvs) = (kvs \<noteq> [])"

text \<open>The numeric value of a number; \<open>bool\<close> is a subclass of \<open>int\<close>.\<close>

fun num_of :: "json \<Rightarrow> rat option" where
  "num_of (JBool b) = Some (of_bool b)"
| "num_of (JInt i) = Some (of_int i)"
| "num_of (JFloat x) = Some x"
| "num_of _ = None"

text \<open>
  \<open>a == b\<close>: numbers are equal when their values are, lists elementwise, dicts when
  they have the same number of items and every key of the first has an equal value in
  the second.
\<close>

fun py_eq :: "json \<Rightarrow> json \<Rightarrow> bool" where
  "py_eq JNull b = (b = JNull)"
| "py_eq (JBool a) b = (num_of b = Some (of_bool a))"
| "py_eq (JInt a) b = (num_of b = Some (of_int a))"
| "py_eq (JFloat a) b = (num_of b = Some a)"
| "py_eq (JStr s) b = (b = JStr s)"
| "py_eq (JArr xs) b = (case b of JArr ys \<Rightarrow> list_all2 py_eq xs ys | _ \<Rightarrow> False)"
| "py_eq (JObj xs) b = (case b of
       JObj ys \<Rightarrow> length xs = length ys \<and>
         (\<forall>(k, v) \<in> set xs. case map_of ys k of None \<Rightarrow> False | Some w \<Rightarrow> py_eq v w)
     | _ \<Rightarrow> False)"

text \<open>
  The elements a \<open>for\<close> loop sees: those of a list, the characters of a string, the
  keys of a dict; nothing else is iterable.
\<close>

fun py_iter :: "json \<Rightarrow> json list result" where
  "py_iter (JArr xs) = Inr xs"
| "py_iter (JStr s) = Inr (map (\<lambda>c. JStr [c]) s)"
| "py_iter (JObj kvs) = Inr (map (\<lambda>kv. JStr (fst kv)) kvs)"
| "py_iter _ = Inl TypeError"

subsection \<open>Numbers of the domain model\<close>

text \<open>
  A percentage is a Python number, an \<open>int\<close> or a \<open>float\<close>. Comparisons between
  them are exact in Python, so they are comparisons of \<open>num_val\<close>.
\<close>

datatype pynum = PyInt int | PyFloat rat

fun num_val :: "pynum \<Rightarrow> rat" where
  "num_val (PyInt i) = of_int i"
| "num_val (PyFloat x) = x"

text \<open>
  Float arithmetic rounds. The rounding \<open>rnd\<close> of an exact result to the nearest double
  is a parameter of everything that computes with floats: \<open>float(i)\<close> is
  \<open>rnd i\<close>, a float operation is \<open>rnd\<close> of the exact result, and the true division
  of two ints is correctly rounded too. The exponent range of doubles (overflow to
  infinity) is not modelled.
\<close>

fun to_float :: "(rat \<Rightarrow> rat) \<Rightarrow> pynum \<Rightarrow> rat" where
  "to_float rnd (PyInt i) = rnd (of_int i)"
| "to_float rnd (PyFloat x) = x"

fun truediv_val :: "(rat \<Rightarrow> rat) \<Rightarrow> pynum \<Rightarrow> pynum \<Rightarrow> rat" where
  "truediv_val rnd (PyInt i) (PyInt j) = rnd (of_int i / of_int j)"
| "truediv_val rnd a b = rnd (to_float rnd a / to_float rnd b)"

text \<open>\<open>a / b\<close>, a float.\<close>

definition py_truediv :: "(rat \<Rightarrow> rat) \<Rightarrow> pynum \<Rightarrow> pynum \<Rightarrow> rat result" where
  "py_truediv rnd a b =
     (if num_val b = 0 then Inl ZeroDivisionError else Inr (truediv_val rnd a b))"

text \<open>\<open>x * n\<close> for a float \<open>x\<close> and an int \<open>n\<close>.\<close>

definition float_mul_int :: "(rat \<Rightarrow> rat) \<Rightarrow> rat \<Rightarrow> int \<Rightarrow> rat" where
  "float_mul_int rnd x n = rnd (x * rnd (of_int n))"

text \<open>\<open>math.ceil(x)\<close>, an int.\<close>

definition math_ceil :: "rat \<Rightarrow> int" where
  "math_ceil x = \<lceil>x\<rceil>"

subsection \<open>The domain model\<close>

text \<open>
  \<open>datetime.datetime\<close>: the fields of the wall-clock time and the UTC offset in
  seconds (\<open>None\<close> for a naive value).
\<close>

record datetime =
  dt_year :: nat
  dt_month :: nat
  dt_day :: nat
  dt_hour :: nat
  dt_minute :: nat
  dt_second :: nat
  dt_microsecond :: nat
  dt_utcoffset :: "int option"

record PartyResult =
  name :: string
  percentage :: pynum
  color :: string

record ProcessedElectionData =
  timestamp :: datetime
  parties :: "PartyResult list"

text \<open>
  The constructor call \<open>PartyResult(name=..., percentage=..., color=...)\<close>. The
  dataclass declares \<open>name: str\<close>, \<open>percentage: float\<close>, \<open>color: str\<close> and the model
  holds it to that: a string, a number (\<open>int\<close>, \<open>bool\<close> or \<open>float\<close>), a string.
  Python does not check the annotations; with any other value it builds the object and
  fails at the first division by that percentage or prints the value's \<open>str()\<close>. Such
  documents are outside the model, which answers \<open>DeclaredTypeMismatch\<close> for them.
\<close>

fun declared_float :: "json \<Rightarrow> pynum option" where
  "declared_float (JBool b) = Some (PyInt (of_bool b))"
| "declared_float (JInt i) = Some (PyInt i)"
| "declared_float (JFloat x) = Some (PyFloat x)"
| "declared_float _ = None"

fun PartyResult_init :: "json \<Rightarrow> json \<Rightarrow> json \<Rightarrow> PartyResult result" where
  "PartyResult_init (JStr n) p (JStr c) =
     (case declared_float p of
        None \<Rightarrow> Inl DeclaredTypeMismatch
      | Some x \<Rightarrow> Inr \<lparr>name = n, percentage = x, color = c\<rparr>)"
| "PartyResult_init _ p _ = Inl DeclaredTypeMismatch"

subsection \<open>\<open>process_election_data\<close>\<close>

text \<open>
  Lines 56 to 58: the path to \<open>election.contest[0].results_overall.latest\<close>, each
  step with the default of the source.
\<close>

definition latest_section :: "json \<Rightarrow> json result" where
  "latest_section data =
     and_then (py_get data ''election'' (JObj [])) (\<lambda>election_data.
     and_then (py_get election_data ''contest'' (JArr [JObj []])) (\<lambda>contests.
     and_then (py_index0 contests) (\<lambda>contest.
     and_then (py_get contest ''results_overall'' (JObj [])) (\<lambda>results_overall.
     py_get results_overall ''latest'' (JObj [])))))"

text \<open>
  \<open>next((p for p in catalog if p.get("id") == party_id), None)\<close>: the first entry
  whose id equals \<open>party_id\<close>. The generator is lazy: entries after the first match are
  not looked at, an entry before it that is not a dict raises.
\<close>

fun find_party :: "json list \<Rightarrow> json \<Rightarrow> json option result" where
  "find_party [] party_id = Inr None"
| "find_party (p # ps) party_id =
     and_then (py_get p ''id'' JNull) (\<lambda>i.
       if py_eq i party_id then Inr (Some p) else find_party ps party_id)"

text \<open>
  Lines 76 to 82: the arguments of the constructor, evaluated in the order written.
\<close>

definition make_party :: "json \<Rightarrow> json \<Rightarrow> PartyResult result" where
  "make_party party result =
     and_then (py_get party ''abbreviation'' (JStr '''')) (\<lambda>n.
     and_then (py_get result ''percent'' (JArr [JObj []])) (\<lambda>percent.
     and_then (py_index0 percent) (\<lambda>first.
     and_then (py_get first ''value'' (JObj [])) (\<lambda>v.
     and_then (py_get v ''absolute'' (JInt 0)) (\<lambda>absolute.
     and_then (py_get party ''color'' (JStr ''000000'')) (\<lambda>c.
     PartyResult_init n absolute c))))))"

text \<open>
  Lines 68 to 83, the body of the loop for one element of \<open>results\<close>: \<open>Some\<close> of the
  entry it appends, \<open>None\<close> when it appends nothing.
\<close>

definition process_result :: "json \<Rightarrow> json \<Rightarrow> PartyResult option result" where
  "process_result data result =
     and_then (py_get result ''target'' JNull) (\<lambda>target.
     if py_eq target (JStr ''parties'') then
       and_then (py_get result ''target_id'' JNull) (\<lambda>party_id.
       and_then (py_get data ''parties'' (JArr [])) (\<lambda>catalog.
       and_then (py_iter catalog) (\<lambda>entries.
       and_then (find_party entries party_id) (\<lambda>party.
       and_then (py_get result ''percent'' JNull) (\<lambda>percent.
       if py_truthy percent then
         (case party of
            None \<Rightarrow> Inr None
          | Some p \<Rightarrow>
              if py_truthy p then and_then (make_party p result) (\<lambda>r. Inr (Some r))
              else Inr None)
       else Inr None)))))
     else Inr None)"

text \<open>The loop of line 67, with the list \<open>parties\<close> it appends to.\<close>

fun collect_parties :: "json \<Rightarrow> json list \<Rightarrow> PartyResult list \<Rightarrow> PartyResult list result" where
  "collect_parties data [] acc = Inr acc"
| "collect_parties data (r # rs) acc =
     and_then (process_result data r) (\<lambda>out.
       collect_parties data rs (case out of None \<Rightarrow> acc | Some p \<Rightarrow> acc @ [p]))"

text \<open>
  \<open>parties.sort(key=lambda x: x.percentage, reverse=True)\<close>. \<open>list.sort\<close> is stable,
  and with \<open>reverse=True\<close> it reverses the list, sorts it ascending and reverses the
  result, which keeps equal keys in their original order.
\<close>

definition percentage_key :: "PartyResult \<Rightarrow> rat" where
  "percentage_key x = num_val (percentage x)"

definition sort_reverse :: "('a \<Rightarrow> rat) \<Rightarrow> 'a list \<Rightarrow> 'a list" where
  "sort_reverse key xs = rev (sort_key key (rev xs))"

text \<open>
  The function. \<open>parser_parse\<close> is \<open>dateutil.parser.parse\<close>, a library function
  and a parameter here, applied to whatever value \<open>status_date\<close> holds; \<open>now\<close> is
  the value of \<open>datetime.datetime.now()\<close> of line 61.
\<close>

definition process_election_data ::
  "(json \<Rightarrow> datetime result) \<Rightarrow> datetime \<Rightarrow> json \<Rightarrow> ProcessedElectionData option result" where
  "process_election_data parser_parse now data =
     and_then (latest_section data) (\<lambda>latest.
     and_then (py_get latest ''results'' (JArr [])) (\<lambda>results.
     and_then (py_get latest ''status_date'' (JStr '''')) (\<lambda>status_date.
     let ts = now in
     if py_truthy status_date then
       and_then (parser_parse status_date) (\<lambda>ts.
       and_then (py_iter results) (\<lambda>rs.
       and_then (collect_parties data rs []) (\<lambda>ps.
       Inr (Some \<lparr>timestamp = ts, parties = sort_reverse percentage_key ps\<rparr>))))
     else Inr None)))"

subsection \<open>\<open>generate_bar_chart\<close>\<close>

text \<open>One drawing instruction \<open>{"df": [x, y, width, height, color]}\<close>.\<close>

record rect =
  df_x :: int
  df_y :: int
  df_w :: int
  df_h :: int
  df_c :: string

text \<open>
  \<open>max(party_data, key=lambda x: x.percentage)\<close> on a non-empty list: the first
  element with the greatest key (a later element replaces the candidate only when
  its key is strictly greater).
\<close>

fun max_by :: "PartyResult \<Rightarrow> PartyResult list \<Rightarrow> PartyResult" where
  "max_by m [] = m"
| "max_by m (x # xs) = max_by (if percentage_key x > percentage_key m then x else m) xs"

text \<open>Line 111.\<close>

definition bar_width :: "(rat \<Rightarrow> rat) \<Rightarrow> pynum \<Rightarrow> pynum \<Rightarrow> int result" where
  "bar_width rnd p max_percentage =
     and_then (py_truediv rnd p max_percentage) (\<lambda>q.
     Inr (math_ceil (float_mul_int rnd q 20)))"

text \<open>Lines 110 to 122, the loop over \<open>enumerate(party_data)\<close> from index \<open>i\<close> on.\<close>

fun bars_loop ::
  "(rat \<Rightarrow> rat) \<Rightarrow> int \<Rightarrow> pynum \<Rightarrow> pynum \<Rightarrow> nat \<Rightarrow> PartyResult list \<Rightarrow> rect list \<Rightarrow> rect list result" where
  "bars_loop rnd bar_height max_percentage threshold i [] rectangles = Inr rectangles"
| "bars_loop rnd bar_height max_percentage threshold i (result # rest) rectangles =
     and_then (bar_width rnd (percentage result) max_percentage) (\<lambda>w.
     let top_left_x = 0;
         top_left_y = int i * bar_height;
         rectangles1 = rectangles @
           [\<lparr>df_x = top_left_x, df_y = top_left_y, df_w = w, df_h = bar_height,
             df_c = color result\<rparr>];
         indicator_color =
           (if num_val (percentage result) > num_val threshold then ''00FF00'' else ''FF0000'');
         rectangles2 = rectangles1 @
           [\<lparr>df_x = w, df_y = top_left_y, df_w = 1, df_h = bar_height,
             df_c = indicator_color\<rparr>]
     in bars_loop rnd bar_height max_percentage threshold (Suc i) rest rectangles2)"

definition generate_bar_chart ::
  "(rat \<Rightarrow> rat) \<Rightarrow> PartyResult list \<Rightarrow> pynum \<Rightarrow> rect list result" where
  "generate_bar_chart rnd party_data threshold =
     (if length party_data = 0 then Inr []
      else
        let display_width = 20;
            display_height = 8;
            bar_height = display_height div int (length party_data);
            rectangles = [\<lparr>df_x = 0, df_y = 0, df_w = display_width, df_h = display_height,
                           df_c = ''000000''\<rparr>];
            max_percentage = percentage (max_by (hd party_data) (tl party_data))
        in bars_loop rnd bar_height max_percentage threshold 0 party_data rectangles)"

subsection \<open>\<open>generate_text_message\<close> and \<open>generate_ulanzi_packet\<close>\<close>

text \<open>One text fragment \<open>{"t": text, "c": color}\<close>.\<close>

record fragment =
  frag_t :: string
  frag_c :: string

text \<open>Decimal digits of a number, and the two-digit, zero-padded form of \<open>%H\<close> and \<open>%M\<close>.\<close>

definition digit_char :: "nat \<Rightarrow> char" where
  "digit_char n = ''0123456789'' ! n"

fun digits_of :: "nat \<Rightarrow> string" where
  "digits_of n =
     (if n < 10 then [digit_char n] else digits_of (n div 10) @ [digit_char (n mod 10)])"

declare digits_of.simps [simp del]

definition pad2 :: "nat \<Rightarrow> string" where
  "pad2 n = (if n < 10 then CHR ''0'' # digits_of n else digits_of n)"

text \<open>\<open>d.strftime("%H:%M")\<close>.\<close>

definition strftime_HM :: "datetime \<Rightarrow> string" where
  "strftime_HM d = pad2 (dt_hour d) @ '':'' @ pad2 (dt_minute d)"

text \<open>
  \<open>astimezone\<close> is the method \<open>datetime.astimezone()\<close> without argument, the
  conversion to the time zone of the machine the script runs on: a property of the
  environment, and a parameter here.
\<close>

definition generate_text_message ::
  "(datetime \<Rightarrow> datetime) \<Rightarrow> ProcessedElectionData \<Rightarrow> fragment list" where
  "generate_text_message astimezone election_data =
     (let start = strftime_HM (astimezone (timestamp election_data));
          text_fragments = [\<lparr>frag_t = start @ '' '', frag_c = ''FFFFFF''\<rparr>]
      in text_fragments @
         map (\<lambda>party. \<lparr>frag_t = name party @ '' '', frag_c = color party\<rparr>)
           (parties election_data))"

text \<open>The message \<open>{"draw": ..., "text": ..., "textOffset": ...}\<close>.\<close>

record packet =
  pkt_draw :: "rect list"
  pkt_text :: "fragment list"
  pkt_textOffset :: int

definition generate_ulanzi_packet ::
  "(rat \<Rightarrow> rat) \<Rightarrow> (datetime \<Rightarrow> datetime) \<Rightarrow> ProcessedElectionData \<Rightarrow> packet result" where
  "generate_ulanzi_packet rnd astimezone election_data =
     and_then (generate_bar_chart rnd (parties election_data) (PyInt 5)) (\<lambda>bar_chart.
     let text_message = generate_text_message astimezone election_data
     in Inr \<lparr>pkt_draw = bar_chart, pkt_text = text_message, pkt_textOffset = 8\<rparr>)"

subsection \<open>The specification's words about one result\<close>





subsection \<open>Example values\<close>

definition example_parties :: "PartyResult list" where
  "example_parties =
     [\<lparr>name = ''A'', percentage = PyInt 60, color = ''FF0000''\<rparr>,
      \<lparr>name = ''B'', percentage = PyInt 40, color = ''0000FF''\<rparr>]"

definition example_rectangles :: "rect list" where
  "example_rectangles =
     [\<lparr>df_x = 0, df_y = 0, df_w = 20, df_h = 8, df_c = ''000000''\<rparr>,
      \<lparr>df_x = 0, df_y = 0, df_w = 20, df_h = 4, df_c = ''FF0000''\<rparr>,
      \<lparr>df_x = 20, df_y = 0, df_w = 1, df_h = 4, df_c = ''00FF00''\<rparr>,
      \<lparr>df_x = 0, df_y = 4, df_w = 14, df_h = 4, df_c = ''0000FF''\<rparr>,
      \<lparr>df_x = 14, df_y = 4, df_w = 1, df_h = 4, df_c = ''00FF00''\<rparr>]"

definition example_timestamp :: datetime where
  "example_timestamp =
     \<lparr>dt_year = 2025, dt_month = 1, dt_day = 1, dt_hour = 12, dt_minute = 34, dt_second = 0,
      dt_microsecond = 0, dt_utcoffset = Some 3600\<rparr>"

definition example_data :: ProcessedElectionData where
  "example_data = \<lparr>timestamp = example_timestamp, parties = example_parties\<rparr>"

definition example_zero_parties :: "PartyResult list" where
  "example_zero_parties =
     [\<lparr>name = ''A'', percentage = PyInt 0, color = ''FF0000''\<rparr>,
      \<lparr>name = ''B'', percentage = PyFloat 0, color = ''0000FF''\<rparr>]"

text \<open>
  A stand-in for \<open>dateutil.parser.parse\<close> in the examples: it knows the one timestamp
  of the examples, rejects any other string as the library rejects a malformed one, and
  raises \<open>TypeError\<close> on a value that is not a string.
\<close>
definition example_parser :: "json \<Rightarrow> datetime result" where
  "example_parser v =
     (case v of
        JStr s \<Rightarrow> if s = ''2025-01-01T12:34:00+01:00'' then Inr example_timestamp
                  else Inl ParserError
      | _ \<Rightarrow> Inl TypeError)"

text \<open>The wall clock of the examples.\<close>
definition example_now :: datetime where
  "example_now =
     \<lparr>dt_year = 2025, dt_month = 1, dt_day = 1, dt_hour = 13, dt_minute = 0, dt_second = 7,
      dt_microsecond = 0, dt_utcoffset = None\<rparr>"

text \<open>A document around a given \<open>latest\<close> section, and a result entry.\<close>
definition document_with :: "json \<Rightarrow> json \<Rightarrow> json" where
  "document_with latest catalog =
     JObj [(''election'', JObj [(''contest'',
              JArr [JObj [(''results_overall'', JObj [(''latest'', latest)])]])]),
           (''parties'', catalog)]"

definition result_entry :: "string \<Rightarrow> string \<Rightarrow> int \<Rightarrow> json" where
  "result_entry target target_id absolute =
     JObj [(''target'', JStr target), (''target_id'', JStr target_id),
           (''percent'', JArr [JObj [(''value'', JObj [(''absolute'', JInt absolute)])]])]"

definition example_results :: "json list" where
  "example_results =
     [result_entry ''parties'' ''b'' 40,
      result_entry ''candidates'' ''a'' 7,
      result_entry ''parties'' ''a'' 60,
      result_entry ''parties'' ''x'' 10,
      JObj [(''target'', JStr ''parties''), (''target_id'', JStr ''a'')]]"

definition example_catalog :: "json list" where
  "example_catalog =
     [JObj [(''id'', JStr ''a''), (''abbreviation'', JStr ''A''), (''color'', JStr ''FF0000'')],
      JObj [(''id'', JStr ''b''), (''abbreviation'', JStr ''B''), (''color'', JStr ''0000FF'')]]"

definition example_latest :: json where
  "example_latest =
     JObj [(''status_date'', JStr ''2025-01-01T12:34:00+01:00''),
           (''results'', JArr example_results)]"

definition example_document :: json where
  "example_document = document_with example_latest (JArr example_catalog)"





section \<open>Properties\<close>

subsection \<open>Sequencing\<close>

lemma and_then_Inr_iff:
  "and_then m f = Inr y \<longleftrightarrow> (\<exists>v. m = Inr v \<and> f v = Inr y)"
  by (cases m) (simp_all add: and_then_def)

lemma and_then_Inl_iff:
  "and_then m f = Inl e \<longleftrightarrow> m = Inl e \<or> (\<exists>v. m = Inr v \<and> f v = Inl e)"
  by (cases m) (simp_all add: and_then_def)

lemma and_then_simps [simp]:
  "and_then (Inl e) f = Inl e"
  "and_then (Inr v) f = f v"
  by (simp_all add: and_then_def)

subsection \<open>The bar chart\<close>


lemma bar_width_zero:
  "num_val m = 0 \<Longrightarrow> bar_width rnd p m = Inl ZeroDivisionError"
  by (simp add: bar_width_def py_truediv_def)

lemma bars_loop_zero:
  "num_val m = 0 \<Longrightarrow> ps \<noteq> [] \<Longrightarrow> bars_loop rnd bh m t i ps acc = Inl ZeroDivisionError"
  by (cases ps) (simp_all add: bar_width_zero)

lemma bars_loop_total:
  "num_val m \<noteq> 0 \<Longrightarrow> \<exists>rs. bars_loop rnd bh m t i ps acc = Inr rs"
  by (induction ps arbitrary: i acc) (simp_all add: bar_width_def py_truediv_def Let_def)


lemma max_by_mem: "max_by m xs \<in> set (m # xs)"
  by (induction xs arbitrary: m) auto

lemma max_by_ge: "\<forall>x\<in>set (m # xs). percentage_key x \<le> percentage_key (max_by m xs)"
proof (induction xs arbitrary: m)
  case Nil
  then show ?case by simp
next
  case (Cons x xs)
  let ?m' = "if percentage_key x > percentage_key m then x else m"
  have ih: "\<forall>y\<in>set (?m' # xs). percentage_key y \<le> percentage_key (max_by ?m' xs)"
    by (rule Cons.IH)
  have "percentage_key m \<le> percentage_key ?m'" "percentage_key x \<le> percentage_key ?m'"
    by auto
  moreover have "percentage_key ?m' \<le> percentage_key (max_by ?m' xs)"
    using ih by simp
  ultimately show ?case using ih by auto
qed

lemma max_by_Max:
  "percentage_key (max_by m xs) = Max (percentage_key ` set (m # xs))"
proof -
  have "percentage_key (max_by m xs) \<in> percentage_key ` set (m # xs)"
    using max_by_mem by blast
  moreover have "\<forall>k\<in>percentage_key ` set (m # xs). k \<le> percentage_key (max_by m xs)"
    using max_by_ge by blast
  ultimately show ?thesis
    by (intro Max_eqI [symmetric]) auto
qed

lemma generate_bar_chart_nonempty:
  assumes "ps \<noteq> []"
  shows "generate_bar_chart rnd ps t =
           bars_loop rnd (8 div int (length ps)) (percentage (max_by (hd ps) (tl ps))) t 0 ps
             [\<lparr>df_x = 0, df_y = 0, df_w = 20, df_h = 8, df_c = ''000000''\<rparr>]"
  using assms by (simp add: generate_bar_chart_def Let_def)

lemma max_percentage_props:
  assumes "ps \<noteq> []"
  shows "percentage (max_by (hd ps) (tl ps)) \<in> percentage ` set ps"
    and "num_val (percentage (max_by (hd ps) (tl ps))) = Max (percentage_key ` set ps)"
proof -
  from assms have eq: "hd ps # tl ps = ps" by simp
  have "max_by (hd ps) (tl ps) \<in> set (hd ps # tl ps)" by (rule max_by_mem)
  then show "percentage (max_by (hd ps) (tl ps)) \<in> percentage ` set ps"
    unfolding eq by blast
  have "percentage_key (max_by (hd ps) (tl ps)) = Max (percentage_key ` set (hd ps # tl ps))"
    by (rule max_by_Max)
  then show "num_val (percentage (max_by (hd ps) (tl ps))) = Max (percentage_key ` set ps)"
    unfolding eq by (simp add: percentage_key_def)
qed


lemma generate_bar_chart_cases:
  assumes ne: "ps \<noteq> []"
  shows "Max (percentage_key ` set ps) = 0 \<Longrightarrow> generate_bar_chart rnd ps t = Inl ZeroDivisionError"
    and "Max (percentage_key ` set ps) \<noteq> 0 \<Longrightarrow> \<exists>rs. generate_bar_chart rnd ps t = Inr rs"
proof -
  let ?m = "percentage (max_by (hd ps) (tl ps))"
  have mv: "num_val ?m = Max (percentage_key ` set ps)"
    using max_percentage_props(2) [OF ne] .
  show "Max (percentage_key ` set ps) = 0 \<Longrightarrow> generate_bar_chart rnd ps t = Inl ZeroDivisionError"
    using mv ne by (simp add: generate_bar_chart_nonempty bars_loop_zero)
  show "Max (percentage_key ` set ps) \<noteq> 0 \<Longrightarrow> \<exists>rs. generate_bar_chart rnd ps t = Inr rs"
    using mv ne by (simp add: generate_bar_chart_nonempty bars_loop_total)
qed


lemma example_bar_chart:
  "generate_bar_chart (\<lambda>x. x) example_parties (PyInt 5) =
     Inr [\<lparr>df_x = 0, df_y = 0, df_w = 20, df_h = 8, df_c = ''000000''\<rparr>,
          \<lparr>df_x = 0, df_y = 0, df_w = 20, df_h = 4, df_c = ''FF0000''\<rparr>,
          \<lparr>df_x = 20, df_y = 0, df_w = 1, df_h = 4, df_c = ''00FF00''\<rparr>,
          \<lparr>df_x = 0, df_y = 4, df_w = 14, df_h = 4, df_c = ''0000FF''\<rparr>,
          \<lparr>df_x = 14, df_y = 4, df_w = 1, df_h = 4, df_c = ''00FF00''\<rparr>]"
proof -
  have c: "\<lceil>(40 / 3 :: rat)\<rceil> = 14" by (simp add: ceiling_eq_iff)
         have d: "(40 * 20 / 60 :: rat) = 40 / 3" by simp
  show ?thesis
    by (simp add: generate_bar_chart_def example_parties_def percentage_key_def bar_width_def
        py_truediv_def float_mul_int_def math_ceil_def Let_def c)
qed

lemma example_bar_chart':
  "generate_bar_chart (\<lambda>x. x) example_parties (PyInt 5) = Inr example_rectangles"
  unfolding example_rectangles_def by (rule example_bar_chart)

lemma example_parties_nonempty: "example_parties \<noteq> []"
  by (simp add: example_parties_def)




text \<open>
  Claim C6. On the empty list \<open>generate_bar_chart\<close> returns the empty list for every
  threshold: no background rectangle either.
\<close>
theorem generate_bar_chart_empty:
  "generate_bar_chart rnd [] threshold = Inr []"
  by (simp add: generate_bar_chart_def)

theorem generate_bar_chart_empty_witness:
  "generate_bar_chart (\<lambda>x. x) [] (PyInt 5) = Inr []"
  using generate_bar_chart_empty [of "\<lambda>x. x" "PyInt 5"] by simp

subsection \<open>The text line and the packet\<close>

lemma digits_of_small: "n < 10 \<Longrightarrow> digits_of n = [digit_char n]"
  by (subst digits_of.simps) simp

lemma digit_char_0: "digit_char 0 = CHR ''0''"
  by (simp add: digit_char_def)

lemma pad2_two_digits:
  assumes "n < 100"
  shows "pad2 n = [digit_char (n div 10), digit_char (n mod 10)]"
proof (cases "n < 10")
  case True
  then show ?thesis by (simp add: pad2_def digits_of_small digit_char_0)
next
  case False
  with assms have "n div 10 < 10" by simp
  then have "digits_of (n div 10) = [digit_char (n div 10)]" by (rule digits_of_small)
  moreover have "digits_of n = digits_of (n div 10) @ [digit_char (n mod 10)]"
    using False by (subst digits_of.simps) simp
  ultimately show ?thesis using False by (simp add: pad2_def)
qed

text \<open>
  Claim C7. \<open>generate_text_message\<close> returns first the fragment with the timestamp,
  converted by \<open>astimezone\<close> and formatted by \<open>strftime("%H:%M")\<close>, followed by one
  space, in white \<open>FFFFFF\<close>; then one fragment for each party in the order of
  \<open>parties\<close>, the party's name followed by one space, in the party's colour. For a
  time of day (hour below 24, minute below 60) the format is two digits, a colon, two
  digits.
\<close>
theorem generate_text_message_fragments:
  "generate_text_message astimezone election_data =
     \<lparr>frag_t = strftime_HM (astimezone (timestamp election_data)) @ '' '', frag_c = ''FFFFFF''\<rparr> #
     map (\<lambda>party. \<lparr>frag_t = name party @ '' '', frag_c = color party\<rparr>) (parties election_data)
   \<and> (\<forall>d. dt_hour d < 24 \<and> dt_minute d < 60 \<longrightarrow>
        strftime_HM d =
          [digit_char (dt_hour d div 10), digit_char (dt_hour d mod 10), CHR '':'',
           digit_char (dt_minute d div 10), digit_char (dt_minute d mod 10)])"
  by (simp add: generate_text_message_def strftime_HM_def pad2_two_digits)

theorem generate_text_message_fragments_witness:
  "generate_text_message (\<lambda>d. d) example_data =
     [\<lparr>frag_t = ''12:34 '', frag_c = ''FFFFFF''\<rparr>,
      \<lparr>frag_t = ''A '', frag_c = ''FF0000''\<rparr>,
      \<lparr>frag_t = ''B '', frag_c = ''0000FF''\<rparr>]
   \<and> dt_hour example_timestamp < 24 \<and> dt_minute example_timestamp < 60
   \<and> strftime_HM example_timestamp = ''12:34''"
proof -
  have h: "dt_hour example_timestamp < 24 \<and> dt_minute example_timestamp < 60"
    by (simp add: example_timestamp_def)
  from generate_text_message_fragments [of "\<lambda>d. d" example_data] h
  have s: "strftime_HM example_timestamp =
          [digit_char (dt_hour example_timestamp div 10), digit_char (dt_hour example_timestamp mod 10), CHR '':'',
           digit_char (dt_minute example_timestamp div 10), digit_char (dt_minute example_timestamp mod 10)]"
    by blast
  have s': "strftime_HM example_timestamp = ''12:34''"
    unfolding s by (simp add: example_timestamp_def digit_char_def)
  from generate_text_message_fragments [of "\<lambda>d. d" example_data]
  have "generate_text_message (\<lambda>d. d) example_data =
     \<lparr>frag_t = strftime_HM (timestamp example_data) @ '' '', frag_c = ''FFFFFF''\<rparr> #
     map (\<lambda>party. \<lparr>frag_t = name party @ '' '', frag_c = color party\<rparr>) (parties example_data)"
    by blast
  then have "generate_text_message (\<lambda>d. d) example_data =
     [\<lparr>frag_t = ''12:34 '', frag_c = ''FFFFFF''\<rparr>,
      \<lparr>frag_t = ''A '', frag_c = ''FF0000''\<rparr>,
      \<lparr>frag_t = ''B '', frag_c = ''0000FF''\<rparr>]"
    by (simp add: example_data_def s' example_parties_def)
  with h s' show ?thesis by blast
qed

text \<open>
  Claim C8. Whenever the bar chart is rendered, \<open>generate_ulanzi_packet\<close> returns the
  packet with these bars as \<open>draw\<close>, the text fragments as \<open>text\<close> and
  \<open>textOffset = 8\<close>; every packet it returns has \<open>textOffset = 8\<close>; and it raises
  only what \<open>generate_bar_chart\<close> raises (threshold 5): the assembly adds no failure.
\<close>
theorem generate_ulanzi_packet_assembles:
  "(\<forall>bars. generate_bar_chart rnd (parties election_data) (PyInt 5) = Inr bars \<longrightarrow>
      generate_ulanzi_packet rnd astimezone election_data =
        Inr \<lparr>pkt_draw = bars,
             pkt_text = generate_text_message astimezone election_data,
             pkt_textOffset = 8\<rparr>) \<and>
   (\<forall>e. generate_ulanzi_packet rnd astimezone election_data = Inl e \<longleftrightarrow>
      generate_bar_chart rnd (parties election_data) (PyInt 5) = Inl e) \<and>
   (\<forall>p. generate_ulanzi_packet rnd astimezone election_data = Inr p \<longrightarrow> pkt_textOffset p = 8)"
  by (cases "generate_bar_chart rnd (parties election_data) (PyInt 5)")
     (auto simp: generate_ulanzi_packet_def Let_def)

theorem generate_ulanzi_packet_assembles_witness:
  "generate_bar_chart (\<lambda>x. x) (parties example_data) (PyInt 5) = Inr example_rectangles \<and>
   generate_ulanzi_packet (\<lambda>x. x) (\<lambda>d. d) example_data =
     Inr \<lparr>pkt_draw = example_rectangles,
          pkt_text = generate_text_message (\<lambda>d. d) example_data,
          pkt_textOffset = 8\<rparr>"
proof -
  have h: "generate_bar_chart (\<lambda>x. x) (parties example_data) (PyInt 5) = Inr example_rectangles"
    using example_bar_chart' by (simp add: example_data_def)
  with generate_ulanzi_packet_assembles [of "\<lambda>x. x" example_data "\<lambda>d. d"]
  show ?thesis by blast
qed

subsection \<open>Division by zero in the bar chart\<close>

text \<open>
  Claim C9. On a non-empty list in which every percentage is 0, \<open>generate_bar_chart\<close>
  raises \<open>ZeroDivisionError\<close>. On a non-empty list of non-negative percentages it
  returns exactly when some percentage is strictly positive.
\<close>
theorem generate_bar_chart_zero_division:
  assumes "party_data \<noteq> []"
  shows "((\<forall>p\<in>set party_data. num_val (percentage p) = 0) \<longrightarrow>
            generate_bar_chart rnd party_data threshold = Inl ZeroDivisionError) \<and>
         ((\<forall>p\<in>set party_data. 0 \<le> num_val (percentage p)) \<longrightarrow>
            ((\<exists>rectangles. generate_bar_chart rnd party_data threshold = Inr rectangles) \<longleftrightarrow>
             (\<exists>p\<in>set party_data. 0 < num_val (percentage p))))"
proof (intro conjI impI)
  let ?K = "percentage_key ` set party_data"
  have fin: "finite ?K" and ne: "?K \<noteq> {}" using assms by simp_all
  {
    assume z: "\<forall>p\<in>set party_data. num_val (percentage p) = 0"
    have "Max ?K \<in> ?K" using fin ne by (rule Max_in)
    then have "Max ?K = 0" using z by (auto simp: percentage_key_def)
    then show "generate_bar_chart rnd party_data threshold = Inl ZeroDivisionError"
      by (rule generate_bar_chart_cases(1) [OF assms])
  }
  {
    assume nn: "\<forall>p\<in>set party_data. 0 \<le> num_val (percentage p)"
    have mem: "Max ?K \<in> ?K" using fin ne by (rule Max_in)
    show "(\<exists>rectangles. generate_bar_chart rnd party_data threshold = Inr rectangles) \<longleftrightarrow>
             (\<exists>p\<in>set party_data. 0 < num_val (percentage p))"
    proof
      assume "\<exists>rectangles. generate_bar_chart rnd party_data threshold = Inr rectangles"
      then have "Max ?K \<noteq> 0"
        using generate_bar_chart_cases(1) [OF assms, of rnd threshold] by auto
      moreover from mem nn have "0 \<le> Max ?K" by (auto simp: percentage_key_def)
      ultimately have "0 < Max ?K" by simp
      with mem show "\<exists>p\<in>set party_data. 0 < num_val (percentage p)"
        by (auto simp: percentage_key_def)
    next
      assume "\<exists>p\<in>set party_data. 0 < num_val (percentage p)"
      then obtain p where p: "p \<in> set party_data" "0 < percentage_key p"
        by (auto simp: percentage_key_def)
      then have "percentage_key p \<le> Max ?K" using fin by simp
      with p have "Max ?K \<noteq> 0" by linarith
      then show "\<exists>rectangles. generate_bar_chart rnd party_data threshold = Inr rectangles"
        by (rule generate_bar_chart_cases(2) [OF assms])
    qed
  }
qed

theorem generate_bar_chart_zero_division_witness:
  "example_zero_parties \<noteq> [] \<and>
   set (map (\<lambda>p. num_val (percentage p)) example_zero_parties) = {0} \<and>
   generate_bar_chart (\<lambda>x. x) example_zero_parties (PyInt 5) = Inl ZeroDivisionError \<and>
   example_parties \<noteq> [] \<and>
   set (map (\<lambda>p. num_val (percentage p)) example_parties) = {60, 40} \<and>
   (\<exists>rectangles. generate_bar_chart (\<lambda>x. x) example_parties (PyInt 5) = Inr rectangles)"
proof -
  have z1: "example_zero_parties \<noteq> []" by (simp add: example_zero_parties_def)
  have z2: "set (map (\<lambda>p. num_val (percentage p)) example_zero_parties) = {0}"
    by (simp add: example_zero_parties_def)
  then have z3: "\<forall>p\<in>set example_zero_parties. num_val (percentage p) = 0"
    by auto
  have p1: "set (map (\<lambda>p. num_val (percentage p)) example_parties) = {60, 40}"
    by (simp add: example_parties_def)
  have p2: "\<forall>p\<in>set example_parties. 0 \<le> num_val (percentage p)"
    by (simp add: example_parties_def)
  have p3: "\<exists>p\<in>set example_parties. 0 < num_val (percentage p)"
    by (simp add: example_parties_def)
  from generate_bar_chart_zero_division [OF z1, of "\<lambda>x. x" "PyInt 5"] z3
  have a: "generate_bar_chart (\<lambda>x. x) example_zero_parties (PyInt 5) = Inl ZeroDivisionError"
    by blast
  from generate_bar_chart_zero_division [OF example_parties_nonempty, of "\<lambda>x. x" "PyInt 5"] p2 p3
  have b: "\<exists>rectangles. generate_bar_chart (\<lambda>x. x) example_parties (PyInt 5) = Inr rectangles"
    by blast
  from z1 z2 a example_parties_nonempty p1 b show ?thesis by blast
qed

subsection \<open>Parsing: no data, the timestamp, the order of the parties\<close>






text \<open>What \<open>process_election_data\<close> does once the path to \<open>latest\<close> has been followed.\<close>

lemma process_election_data_latest:
  assumes "latest_section data = Inr (JObj kvs)"
  defines "status_date \<equiv> (case map_of kvs ''status_date'' of None \<Rightarrow> JStr '''' | Some v \<Rightarrow> v)"
  defines "results \<equiv> (case map_of kvs ''results'' of None \<Rightarrow> JArr [] | Some v \<Rightarrow> v)"
  shows "process_election_data parser_parse now data =
     (if py_truthy status_date then
        and_then (parser_parse status_date) (\<lambda>ts.
        and_then (py_iter results) (\<lambda>rs.
        and_then (collect_parties data rs []) (\<lambda>ps.
        Inr (Some \<lparr>timestamp = ts, parties = sort_reverse percentage_key ps\<rparr>))))
      else Inr None)"
  using assms(1) by (simp add: process_election_data_def Let_def status_date_def results_def)



lemma process_election_data_Some:
  assumes "process_election_data parser_parse now data = Inr (Some r)"
  shows "\<exists>kvs ts rs ps.
           latest_section data = Inr (JObj kvs) \<and>
           py_truthy (case map_of kvs ''status_date'' of None \<Rightarrow> JStr '''' | Some v \<Rightarrow> v) \<and>
           parser_parse (case map_of kvs ''status_date'' of None \<Rightarrow> JStr '''' | Some v \<Rightarrow> v) = Inr ts \<and>
           py_iter (case map_of kvs ''results'' of None \<Rightarrow> JArr [] | Some v \<Rightarrow> v) = Inr rs \<and>
           collect_parties data rs [] = Inr ps \<and>
           r = \<lparr>timestamp = ts, parties = sort_reverse percentage_key ps\<rparr>"
proof -
  from assms obtain latest where l: "latest_section data = Inr latest"
    by (cases "latest_section data") (simp_all add: process_election_data_def)
  from assms l obtain kvs where k: "latest = JObj kvs"
    by (cases latest) (simp_all add: process_election_data_def)
  let ?sd = "case map_of kvs ''status_date'' of None \<Rightarrow> JStr '''' | Some v \<Rightarrow> v"
  let ?res = "case map_of kvs ''results'' of None \<Rightarrow> JArr [] | Some v \<Rightarrow> v"
  note eq = process_election_data_latest [OF l [unfolded k], of parser_parse now]
  from assms eq have t: "py_truthy ?sd" by (auto split: if_splits)
  with assms eq have
    "and_then (parser_parse ?sd) (\<lambda>ts.
        and_then (py_iter ?res) (\<lambda>rs.
        and_then (collect_parties data rs []) (\<lambda>ps.
        Inr (Some \<lparr>timestamp = ts, parties = sort_reverse percentage_key ps\<rparr>)))) = Inr (Some r)"
    by simp
  then obtain ts rs ps where
    "parser_parse ?sd = Inr ts" "py_iter ?res = Inr rs" "collect_parties data rs [] = Inr ps"
    "r = \<lparr>timestamp = ts, parties = sort_reverse percentage_key ps\<rparr>"
    by (auto simp: and_then_Inr_iff)
  with l k t show ?thesis by blast
qed


lemma latest_section_document_with:
  "latest_section (document_with latest catalog) = Inr latest"
  by (simp add: latest_section_def document_with_def)

lemma example_collect:
  "collect_parties example_document example_results [] =
     Inr [\<lparr>name = ''B'', percentage = PyInt 40, color = ''0000FF''\<rparr>,
          \<lparr>name = ''A'', percentage = PyInt 60, color = ''FF0000''\<rparr>]"
  by (simp add: example_results_def example_document_def document_with_def example_catalog_def
      result_entry_def process_result_def make_party_def)

lemma example_sort:
  "sort_reverse percentage_key
     [\<lparr>name = ''B'', percentage = PyInt 40, color = ''0000FF''\<rparr>,
      \<lparr>name = ''A'', percentage = PyInt 60, color = ''FF0000''\<rparr>] = example_parties"
  by (simp add: sort_reverse_def percentage_key_def example_parties_def)

lemma example_process:
  "process_election_data example_parser example_now example_document = Inr (Some example_data)"
proof -
  have l: "latest_section example_document =
     Inr (JObj [(''status_date'', JStr ''2025-01-01T12:34:00+01:00''),
           (''results'', JArr example_results)])"
    by (simp add: example_document_def latest_section_document_with example_latest_def)
  show ?thesis
    by (simp add: process_election_data_latest [OF l] example_parser_def example_collect
        example_sort example_data_def)
qed






text \<open>
  Claim C10. The value of \<open>datetime.now()\<close> has no effect on what
  \<open>process_election_data\<close> returns, and the timestamp of a returned result is the value
  the parser returned for the \<open>status_date\<close> of the document.
\<close>
theorem process_election_data_timestamp:
  "process_election_data parser_parse now data = process_election_data parser_parse now' data \<and>
   (\<forall>r. process_election_data parser_parse now data = Inr (Some r) \<longrightarrow>
      (\<exists>latest status_date.
         latest_section data = Inr latest \<and>
         py_get latest ''status_date'' (JStr '''') = Inr status_date \<and>
         py_truthy status_date \<and>
         parser_parse status_date = Inr (timestamp r)))"
proof (intro conjI allI impI)
  show "process_election_data parser_parse now data = process_election_data parser_parse now' data"
    by (simp add: process_election_data_def Let_def)
next
  fix r assume "process_election_data parser_parse now data = Inr (Some r)"
  from process_election_data_Some [OF this] obtain kvs ts where
    l: "latest_section data = Inr (JObj kvs)" and
    t: "py_truthy (case map_of kvs ''status_date'' of None \<Rightarrow> JStr '''' | Some v \<Rightarrow> v)" and
    p: "parser_parse (case map_of kvs ''status_date'' of None \<Rightarrow> JStr '''' | Some v \<Rightarrow> v) = Inr ts" and
    r: "timestamp r = ts"
    by auto
  have g: "py_get (JObj kvs) ''status_date'' (JStr '''') =
             Inr (case map_of kvs ''status_date'' of None \<Rightarrow> JStr '''' | Some v \<Rightarrow> v)"
    by simp
  from l g t p r show "\<exists>latest status_date.
         latest_section data = Inr latest \<and>
         py_get latest ''status_date'' (JStr '''') = Inr status_date \<and>
         py_truthy status_date \<and>
         parser_parse status_date = Inr (timestamp r)"
    by blast
qed

theorem process_election_data_timestamp_witness:
  "process_election_data example_parser example_now example_document = Inr (Some example_data) \<and>
   process_election_data example_parser example_timestamp example_document =
     Inr (Some example_data) \<and>
   example_now \<noteq> example_timestamp \<and>
   (\<exists>latest status_date.
         latest_section example_document = Inr latest \<and>
         py_get latest ''status_date'' (JStr '''') = Inr status_date \<and>
         py_truthy status_date \<and>
         example_parser status_date = Inr (timestamp example_data))"
proof -
  note T = process_election_data_timestamp [of example_parser example_now example_document example_timestamp]
  have d: "example_now \<noteq> example_timestamp"
    by (simp add: example_now_def example_timestamp_def)
  from T example_process d show ?thesis by metis
qed

subsection \<open>Parsing: which results contribute\<close>













end
